theory Spec2Isabelle
  imports Complex_Main
begin

section \<open>The wallet-connection component of \<open>App.jsx\<close>\<close>

text \<open>
  \<open>App.jsx\<close> is one React component. Its eight \<open>useState\<close> cells are the Session; its
  handlers never read the cells, they only call the setters, the wallet
  (\<open>window.ethereum\<close>) and the ethers library. A handler is therefore modelled as the
  list of setter and browser calls it makes, in order, together with the exception that
  leaves it, if any; the Session after the handler is the Session before it with these
  calls applied in order.
\<close>

subsection \<open>JavaScript values\<close>

text \<open>
  Strings are lists of 8-bit characters. A thrown value is given by its numeric \<open>code\<close>
  and its \<open>message\<close>, where it has them, and by the string \<open>String(err)\<close> renders
  it to; \<open>null\<close> and \<open>undefined\<close>, which a wallet may reject with, have neither code
  nor message.
\<close>

record js_err =
  err_code :: "int option"
  err_message :: "string option"
  err_string :: string

text \<open>
  \<open>err?.message || String(err)\<close>: an absent or empty message is falsy. \<open>initProvider\<close>
  and \<open>loadBalance\<close> write \<open>err.message\<close> instead; they only catch what ethers
  throws, which are \<open>Error\<close> objects, and on objects the two expressions agree.
\<close>

definition err_text :: "js_err \<Rightarrow> string" where
  "err_text e =
     (case err_message e of
        None \<Rightarrow> err_string e
      | Some m \<Rightarrow> if m = [] then err_string e else m)"

text \<open>
  A JavaScript Number: a finite value is the rational the double denotes (the two zeros
  are one value). \<open>parseInt\<close> below rounds to the nearest double as JavaScript does;
  the decimal \<open>Number(_)\<close> further down does not model the rounding and agrees with
  JavaScript where the decimal is a double, zero in particular.
\<close>

datatype js_number = NaN | PosInf | NegInf | Fin rat

text \<open>
  What \<open>chainId\<close> holds: the BigInt \<open>network.chainId\<close> of ethers, which is exact
  and not negative, or the Number \<open>parseInt\<close> returns.
\<close>

datatype chain_num = BigInt nat | Num js_number

type_synonym handle = nat

text \<open>
  \<open>p.getSigner()\<close> is an \<open>async\<close> method of ethers v6 and the component never
  awaits it: the call returns a promise at once, cannot throw into the caller, and the
  promise is what \<open>setSigner\<close> stores. Whether that promise is later rejected is seen
  by no \<open>catch\<close> of the component.
\<close>

datatype signer_handle = SignerPromise handle

subsection \<open>The Session and the setter calls\<close>

record session =
  provider :: "handle option"
  signer :: "signer_handle option"
  address :: "string option"
  balance :: "string option"
  chainId :: "chain_num option"
  chainHex :: "string option"
  error :: "string option"
  connecting :: bool

definition session0 :: session where
  "session0 = \<lparr> provider = None, signer = None, address = None, balance = None,
       chainId = None, chainHex = None, error = None, connecting = False \<rparr>"

datatype action =
    SetProvider "handle option"
  | SetSigner "signer_handle option"
  | SetAddress "string option"
  | SetBalance "string option"
  | SetChainId "chain_num option"
  | SetChainHex "string option"
  | SetError "string option"
  | SetConnecting bool
  | Confirm string
  | WindowOpen string string

fun apply_action :: "action \<Rightarrow> session \<Rightarrow> session" where
  "apply_action (SetProvider v) s = s\<lparr>provider := v\<rparr>"
| "apply_action (SetSigner v) s = s\<lparr>signer := v\<rparr>"
| "apply_action (SetAddress v) s = s\<lparr>address := v\<rparr>"
| "apply_action (SetBalance v) s = s\<lparr>balance := v\<rparr>"
| "apply_action (SetChainId v) s = s\<lparr>chainId := v\<rparr>"
| "apply_action (SetChainHex v) s = s\<lparr>chainHex := v\<rparr>"
| "apply_action (SetError v) s = s\<lparr>error := v\<rparr>"
| "apply_action (SetConnecting v) s = s\<lparr>connecting := v\<rparr>"
| "apply_action (Confirm msg) s = s"
| "apply_action (WindowOpen url target) s = s"

fun run :: "action list \<Rightarrow> session \<Rightarrow> session" where
  "run [] s = s"
| "run (a # as) s = run as (apply_action a s)"

subsection \<open>Control flow: sequencing, \<open>try\<close>/\<open>catch\<close>/\<open>finally\<close>\<close>

text \<open>
  The outcome of a block: the calls it made and the exception it ended with (for an
  \<open>async\<close> function, the rejection of its promise).
\<close>

type_synonym outcome = "action list \<times> js_err option"

definition emit :: "action list \<Rightarrow> outcome" where
  "emit acts = (acts, None)"

definition throw :: "js_err \<Rightarrow> outcome" where
  "throw e = ([], Some e)"

definition seq :: "outcome \<Rightarrow> outcome \<Rightarrow> outcome" where
  "seq a b = (case snd a of None \<Rightarrow> (fst a @ fst b, snd b) | Some e \<Rightarrow> a)"

definition call :: "js_err + 'a \<Rightarrow> ('a \<Rightarrow> outcome) \<Rightarrow> outcome" where
  "call r k = (case r of Inl e \<Rightarrow> throw e | Inr v \<Rightarrow> k v)"

definition try_catch :: "outcome \<Rightarrow> (js_err \<Rightarrow> outcome) \<Rightarrow> outcome" where
  "try_catch body handler =
     (case snd body of
        None \<Rightarrow> body
      | Some e \<Rightarrow> (fst body @ fst (handler e), snd (handler e)))"

definition try_finally :: "outcome \<Rightarrow> outcome \<Rightarrow> outcome" where
  "try_finally body fin =
     (fst body @ fst fin, (case snd fin of None \<Rightarrow> snd body | Some e \<Rightarrow> Some e))"

definition final :: "outcome \<Rightarrow> session \<Rightarrow> session" where
  "final out s = run (fst out) s"

definition escapes :: "outcome \<Rightarrow> js_err option" where
  "escapes out = snd out"

subsection \<open>Chain identifiers: \<open>toString(16)\<close> and \<open>parseInt(_, 16)\<close>\<close>

definition hex_char :: "nat \<Rightarrow> char" where
  "hex_char d = ''0123456789abcdef'' ! d"

function digits16 :: "nat \<Rightarrow> string" where
  "digits16 n = (if n < 16 then [hex_char n] else digits16 (n div 16) @ [hex_char (n mod 16)])"
  by pat_completeness auto
termination
  by (relation "measure id") auto

declare digits16.simps [simp del]

text \<open>\<open>n.toString(16)\<close> of a non-negative BigInt.\<close>

definition toString16 :: "nat \<Rightarrow> string" where
  "toString16 n = digits16 n"

definition hex_val :: "char \<Rightarrow> nat option" where
  "hex_val c =
     (let k = of_char c :: nat in
      if 48 \<le> k \<and> k \<le> 57 then Some (k - 48)
      else if 97 \<le> k \<and> k \<le> 102 then Some (k - 87)
      else if 65 \<le> k \<and> k \<le> 70 then Some (k - 55)
      else None)"

definition is_hex :: "char \<Rightarrow> bool" where
  "is_hex c = (hex_val c \<noteq> None)"

definition js_whitespace :: "char \<Rightarrow> bool" where
  "js_whitespace c = (of_char c \<in> {9, 10, 11, 12, 13, 32, 160 :: nat})"

definition hex_value :: "string \<Rightarrow> nat" where
  "hex_value ds = foldl (\<lambda>acc c. 16 * acc + (case hex_val c of Some d \<Rightarrow> d | None \<Rightarrow> 0)) 0 ds"

text \<open>
  The double nearest to a natural number, ties to the even significand: \<open>double_exp m\<close>
  is the number of low bits that do not fit into the 53 bits of the significand.
  \<open>None\<close> is the overflow to \<open>Infinity\<close>.
\<close>

function double_exp :: "nat \<Rightarrow> nat" where
  "double_exp m = (if m < 2 ^ 53 then 0 else Suc (double_exp (m div 2)))"
  by pat_completeness auto
termination
  by (relation "measure id") auto

declare double_exp.simps [simp del]

definition to_double :: "nat \<Rightarrow> nat option" where
  "to_double m =
     (let e = double_exp m;
          q = m div 2 ^ e;
          r = m mod 2 ^ e;
          up = (2 ^ e < 2 * r \<or> (2 * r = 2 ^ e \<and> odd q));
          v = (if up then q + 1 else q) * 2 ^ e
      in if v < 2 ^ 1024 then Some v else None)"

text \<open>
  \<open>parseInt(str, 16)\<close>: leading white space is skipped, then an optional sign, then an
  optional \<open>0x\<close> or \<open>0X\<close>; the longest run of hexadecimal digits that follows is the
  value, rounded to a double, and \<open>NaN\<close> results when that run is empty.
\<close>

definition strip_sign :: "string \<Rightarrow> bool \<times> string" where
  "strip_sign s =
     (case s of
        [] \<Rightarrow> (False, [])
      | c # cs \<Rightarrow> if c = CHR ''-'' then (True, cs) else if c = CHR ''+'' then (False, cs)
                 else (False, s))"

definition strip_0x :: "string \<Rightarrow> string" where
  "strip_0x s =
     (case s of
        c # d # cs \<Rightarrow> if c = CHR ''0'' \<and> (d = CHR ''x'' \<or> d = CHR ''X'') then cs else s
      | _ \<Rightarrow> s)"

definition parseInt16 :: "string \<Rightarrow> js_number" where
  "parseInt16 str =
     (let (neg, s) = strip_sign (dropWhile js_whitespace str);
          z = takeWhile is_hex (strip_0x s)
      in if z = [] then NaN
         else (case to_double (hex_value z) of
                 None \<Rightarrow> if neg then NegInf else PosInf
               | Some v \<Rightarrow> Fin (of_int (if neg then - int v else int v))))"

subsection \<open>The wallet and the ethers library\<close>

text \<open>
  Neither the injected wallet nor ethers is part of the repository: what each of their
  calls answers is a parameter. Every call the component waits for may throw (or
  reject).
\<close>

record chain_params =
  cp_chainId :: string
  cp_chainName :: string
  cp_nativeCurrency :: "string \<times> string \<times> nat"
  cp_rpcUrls :: "string list"
  cp_blockExplorerUrls :: "string list"

record wallet =
  has_ethereum :: bool
  confirm_go :: bool
  request_accounts :: "js_err + string list option"
  switch_chain :: "string \<Rightarrow> js_err + unit"
  add_chain :: "chain_params \<Rightarrow> js_err + unit"
  new_provider :: "js_err + handle"
  get_network :: "handle \<Rightarrow> js_err + nat"
  list_accounts :: "handle \<Rightarrow> js_err + string list"
  get_address :: "string \<Rightarrow> js_err + string"

text \<open>
  \<open>has_ethereum\<close> is \<open>typeof window.ethereum !== "undefined"\<close>; \<open>confirm_go\<close> the
  user's answer to \<open>confirm(...)\<close>; \<open>request_accounts\<close> the answer to
  \<open>eth_requestAccounts\<close> (\<open>None\<close> for \<open>null\<close> or \<open>undefined\<close>);
  \<open>new_provider\<close> is \<open>new ethers.BrowserProvider(window.ethereum)\<close>;
  \<open>get_address\<close> is \<open>ethers.getAddress\<close>, the standalone checksum function.
\<close>

subsection \<open>\<open>initProvider\<close>\<close>

definition chain_updates :: "nat \<Rightarrow> action list" where
  "chain_updates n =
     [SetChainId (Some (BigInt n)), SetChainHex (Some (''0x'' @ toString16 n))]"

definition initProvider_try :: "wallet \<Rightarrow> outcome" where
  "initProvider_try w =
     call (new_provider w) (\<lambda>p.
     seq (emit [SetProvider (Some p)])
    (call (get_network w p) (\<lambda>network.
     seq (emit (chain_updates network))
    (call (list_accounts w p) (\<lambda>accounts.
     case accounts of
       [] \<Rightarrow> emit []
     | a # _ \<Rightarrow>
         seq (emit [SetSigner (Some (SignerPromise p))])
        (call (get_address w a) (\<lambda>addr.
         emit [SetAddress (Some addr)])))))))"

definition initProvider :: "wallet \<Rightarrow> outcome" where
  "initProvider w =
     (if \<not> has_ethereum w then
        emit [SetError (Some ''No injected wallet found (install MetaMask).''),
              SetProvider None, SetSigner None]
      else
        try_catch (initProvider_try w) (\<lambda>err. emit [SetError (Some (err_text err))]))"

subsection \<open>The event handlers\<close>

definition onAccountsChanged :: "wallet \<Rightarrow> string list option \<Rightarrow> outcome" where
  "onAccountsChanged w accs =
     (case accs of
        None \<Rightarrow> emit [SetAddress None, SetSigner None, SetBalance None]
      | Some [] \<Rightarrow> emit [SetAddress None, SetSigner None, SetBalance None]
      | Some (a # _) \<Rightarrow>
          call (get_address w a) (\<lambda>addr.
          seq (emit [SetAddress (Some addr)])
         (call (new_provider w) (\<lambda>p.
          emit [SetSigner (Some (SignerPromise p))]))))"

definition onChainChanged :: "wallet \<Rightarrow> string \<Rightarrow> outcome" where
  "onChainChanged w hexChain =
     seq (emit [SetChainHex (Some hexChain), SetChainId (Some (Num (parseInt16 hexChain)))])
         (initProvider w)"

subsection \<open>\<open>connect\<close>\<close>

definition connect_try :: "wallet \<Rightarrow> outcome" where
  "connect_try w =
     (if \<not> has_ethereum w then
        emit ([Confirm ''MetaMask not found. Open download page?'']
              @ (if confirm_go w then [WindowOpen ''https://metamask.io/download/'' ''_blank'']
                 else [])
              @ [SetConnecting False])
      else
        call (request_accounts w) (\<lambda>accounts.
        case accounts of
          None \<Rightarrow> emit []
        | Some [] \<Rightarrow> emit []
        | Some (a # _) \<Rightarrow>
            call (new_provider w) (\<lambda>p.
            seq (emit [SetProvider (Some p), SetSigner (Some (SignerPromise p))])
           (call (get_address w a) (\<lambda>addr.
            seq (emit [SetAddress (Some addr)])
           (call (get_network w p) (\<lambda>net.
            emit (chain_updates net))))))))"

definition connect :: "wallet \<Rightarrow> outcome" where
  "connect w =
     seq (emit [SetError None, SetConnecting True])
         (try_finally
            (try_catch (connect_try w) (\<lambda>err. emit [SetError (Some (err_text err))]))
            (emit [SetConnecting False]))"

subsection \<open>\<open>switchNetwork\<close>\<close>

definition switchNetwork :: "wallet \<Rightarrow> string \<Rightarrow> chain_params option \<Rightarrow> outcome" where
  "switchNetwork w hexChainId addChainParams =
     (if \<not> has_ethereum w then
        emit [SetError (Some ''No wallet available to switch network.'')]
      else
        try_catch (call (switch_chain w hexChainId) (\<lambda>_. emit []))
          (\<lambda>switchError.
             case addChainParams of
               Some params \<Rightarrow>
                 if err_code switchError = Some 4902 then
                   try_catch (call (add_chain w params) (\<lambda>_. emit []))
                     (\<lambda>addError. emit [SetError (Some (err_text addError))])
                 else emit [SetError (Some (err_text switchError))]
             | None \<Rightarrow> emit [SetError (Some (err_text switchError))]))"

subsection \<open>Balance Refresh: the effect on \<open>[provider, address]\<close>\<close>

text \<open>
  Every run of the effect has its own \<open>mounted\<close> variable, shared by the run's
  \<open>loadBalance\<close> closure and by its cleanup. The page keeps these variables in a store
  indexed by the number of the run. A setter call only hands React the new value
  (\<open>Dispatch\<close>); the component sees it from the next render on (\<open>Render\<close>), and it
  is there that React, when \<open>provider\<close> or \<open>address\<close> differ from those of the
  previous render, runs the cleanup of the previous effect run and then the effect
  again. \<open>sess\<close> holds the values handed to React so far, \<open>deps\<close> the \<open>provider\<close>
  and \<open>address\<close> of the latest effect run. The page is followed while the component
  stays on the page.
\<close>

record page =
  sess :: session
  mounted :: "nat \<Rightarrow> bool"
  runs :: nat
  deps :: "(handle option \<times> string option) option"
  pending :: "nat \<Rightarrow> (handle \<times> string) option"










subsection \<open>\<open>formatNumber\<close>\<close>

text \<open>
  \<open>Number(n)\<close> is modelled on signed decimal literals with an optional fraction, and
  \<open>toFixed\<close> below \<open>10^21\<close>; what the two built-ins answer elsewhere (exponents,
  \<open>Infinity\<close>, radix prefixes; the exponential rendering of large values) is a parameter.
\<close>

record js_rest =
  number_other :: "string \<Rightarrow> js_number"
  to_string_large :: "rat \<Rightarrow> string"

definition is_digit :: "char \<Rightarrow> bool" where
  "is_digit c = (48 \<le> (of_char c :: nat) \<and> (of_char c :: nat) \<le> 57)"

definition dec_value :: "string \<Rightarrow> nat" where
  "dec_value ds = foldl (\<lambda>acc c. 10 * acc + (of_char c - 48)) 0 ds"

definition trim :: "string \<Rightarrow> string" where
  "trim s = rev (dropWhile js_whitespace (rev (dropWhile js_whitespace s)))"

definition decimal_literal :: "string \<Rightarrow> rat option" where
  "decimal_literal u =
     (let ip = takeWhile is_digit u in
      case dropWhile is_digit u of
        [] \<Rightarrow> if ip = [] then None else Some (of_nat (dec_value ip))
      | c # fp \<Rightarrow>
          if c = CHR ''.'' \<and> list_all is_digit fp \<and> (ip \<noteq> [] \<or> fp \<noteq> [])
          then Some (of_nat (dec_value ip) + of_nat (dec_value fp) / 10 ^ length fp)
          else None)"

definition Number :: "js_rest \<Rightarrow> string \<Rightarrow> js_number" where
  "Number rt str =
     (let t = trim str in
      if t = [] then Fin 0
      else (let (neg, u) = strip_sign t in
            case decimal_literal u of
              Some r \<Rightarrow> Fin (if neg then - r else r)
            | None \<Rightarrow> number_other rt str))"

definition dec_char :: "nat \<Rightarrow> char" where
  "dec_char d = ''0123456789'' ! d"

function dec_digits :: "nat \<Rightarrow> string" where
  "dec_digits n = (if n < 10 then [dec_char n] else dec_digits (n div 10) @ [dec_char (n mod 10)])"
  by pat_completeness auto
termination
  by (relation "measure id") auto

declare dec_digits.simps [simp del]

text \<open>
  \<open>x.toFixed(f)\<close>: the integer \<open>n\<close> nearest to \<open>x * 10^f\<close> (the larger one of two), its
  digits padded to \<open>f + 1\<close>, a point before the last \<open>f\<close>.
\<close>

definition toFixed :: "js_rest \<Rightarrow> js_number \<Rightarrow> nat \<Rightarrow> string" where
  "toFixed rt x f =
     (case x of
        NaN \<Rightarrow> ''NaN''
      | PosInf \<Rightarrow> ''Infinity''
      | NegInf \<Rightarrow> ''-Infinity''
      | Fin r \<Rightarrow>
          (let s = (if r < 0 then ''-'' else []);
               a = \<bar>r\<bar>;
               m = (if 10 ^ 21 \<le> a then to_string_large rt a
                    else (let n = nat \<lfloor>a * 10 ^ f + 1 / 2\<rfloor>;
                              ds = dec_digits n
                          in if f = 0 then ds
                             else (let z = (if length ds \<le> f
                                            then replicate (f + 1 - length ds) CHR ''0'' @ ds
                                            else ds);
                                       k = length z
                                   in take (k - f) z @ ''.'' @ drop (k - f) z)))
           in s @ m))"

text \<open>
  \<open>.replace(/\.?0+$/, "")\<close>: the leftmost position from which an optional point and
  then one or more zeros reach the end of the string; everything from there on is
  removed. With no such position the string is unchanged.
\<close>

definition all_zeros :: "string \<Rightarrow> bool" where
  "all_zeros t = (t \<noteq> [] \<and> list_all (\<lambda>c. c = CHR ''0'') t)"

definition match_here :: "string \<Rightarrow> bool" where
  "match_here t =
     (case t of
        [] \<Rightarrow> False
      | c # zs \<Rightarrow> (c = CHR ''.'' \<and> all_zeros zs) \<or> all_zeros t)"

fun replace_trailing_zeros :: "string \<Rightarrow> string" where
  "replace_trailing_zeros [] = []"
| "replace_trailing_zeros (c # cs) =
     (if match_here (c # cs) then [] else c # replace_trailing_zeros cs)"

definition formatNumber :: "js_rest \<Rightarrow> string \<Rightarrow> string" where
  "formatNumber rt n =
     (let x = Number rt n in
      if x = NaN then n else replace_trailing_zeros (toFixed rt x 6))"

subsection \<open>The chain fields as two encodings of one identifier\<close>

text \<open>
  The identifier a hexadecimal chain id denotes: \<open>0x\<close> and then one or more
  hexadecimal digits. The number a \<open>chainId\<close> value denotes, when it denotes one.
\<close>

definition hex_denotes :: "string \<Rightarrow> nat option" where
  "hex_denotes str =
     (case str of
        c # d # ds \<Rightarrow>
          if c = CHR ''0'' \<and> d = CHR ''x'' \<and> ds \<noteq> [] \<and> list_all is_hex ds
          then Some (hex_value ds) else None
      | _ \<Rightarrow> None)"

fun num_value :: "chain_num \<Rightarrow> rat option" where
  "num_value (BigInt n) = Some (of_nat n)"
| "num_value (Num (Fin r)) = Some r"
| "num_value (Num NaN) = None"
| "num_value (Num PosInf) = None"
| "num_value (Num NegInf) = None"

definition same_chain :: "session \<Rightarrow> bool" where
  "same_chain s =
     (case (chainHex s, chainId s) of
        (Some hx, Some v) \<Rightarrow>
          (case hex_denotes hx of
             Some n \<Rightarrow> num_value v = Some (of_nat n)
           | None \<Rightarrow> False)
      | _ \<Rightarrow> False)"

subsection \<open>Concrete wallets and inputs\<close>

definition user_rejected :: js_err where
  "user_rejected = \<lparr> err_code = Some 4001, err_message = Some ''User rejected the request.'',
       err_string = ''Error: User rejected the request.'' \<rparr>"

definition unrecognized_chain :: js_err where
  "unrecognized_chain = \<lparr> err_code = Some 4902, err_message = Some ''Unrecognized chain ID.'',
       err_string = ''Error: Unrecognized chain ID.'' \<rparr>"

definition invalid_address :: js_err where
  "invalid_address = \<lparr> err_code = None, err_message = Some ''invalid address'',
       err_string = ''TypeError: invalid address'' \<rparr>"

definition rpc_down :: js_err where
  "rpc_down = \<lparr> err_code = Some (- 32603), err_message = Some ''Internal JSON-RPC error.'',
       err_string = ''Error: Internal JSON-RPC error.'' \<rparr>"

definition raw_account :: string where
  "raw_account = ''0xd8da6bf26964af9d7eed9e03e53415d37aa96045''"

definition checksummed_account :: string where
  "checksummed_account = ''0xd8dA6BF26964aF9D7eEd9e03E53415D37aA96045''"

text \<open>A wallet on chain 1 that approves every request and knows one account.\<close>

definition wallet_ok :: wallet where
  "wallet_ok = \<lparr> has_ethereum = True, confirm_go = False,
       request_accounts = Inr (Some [raw_account]),
       switch_chain = (\<lambda>_. Inr ()),
       add_chain = (\<lambda>_. Inr ()),
       new_provider = Inr 1,
       get_network = (\<lambda>_. Inr 1),
       list_accounts = (\<lambda>_. Inr [raw_account]),
       get_address = (\<lambda>a. if a = raw_account \<or> a = checksummed_account
                            then Inr checksummed_account else Inl invalid_address) \<rparr>"

definition wallet_absent :: wallet where
  "wallet_absent = wallet_ok\<lparr> has_ethereum := False, confirm_go := True \<rparr>"

definition wallet_rejecting :: wallet where
  "wallet_rejecting = wallet_ok\<lparr> request_accounts := Inl user_rejected \<rparr>"

definition wallet_unknown_chain :: wallet where
  "wallet_unknown_chain = wallet_ok\<lparr> switch_chain := (\<lambda>_. Inl unrecognized_chain) \<rparr>"

definition wallet_no_add :: wallet where
  "wallet_no_add = wallet_unknown_chain\<lparr> add_chain := (\<lambda>_. Inl user_rejected) \<rparr>"

definition wallet_rpc_down :: wallet where
  "wallet_rpc_down = wallet_ok\<lparr> get_network := (\<lambda>_. Inl rpc_down) \<rparr>"

text \<open>A wallet whose account is not an address: \<open>ethers.getAddress\<close> throws on it.\<close>

definition wallet_bad_account :: wallet where
  "wallet_bad_account = wallet_ok\<lparr> request_accounts := Inr (Some [''0x123'']) \<rparr>"

definition polygon_params :: chain_params where
  "polygon_params = \<lparr> cp_chainId = ''0x89'', cp_chainName = ''Polygon'',
       cp_nativeCurrency = (''POL'', ''POL'', 18),
       cp_rpcUrls = [''https://polygon-rpc.com''],
       cp_blockExplorerUrls = [''https://polygonscan.com''] \<rparr>"

definition session_on_mainnet :: session where
  "session_on_mainnet = session0\<lparr> chainId := Some (BigInt 1), chainHex := Some ''0x1'' \<rparr>"

definition rest0 :: js_rest where
  "rest0 = \<lparr> number_other = (\<lambda>_. NaN), to_string_large = (\<lambda>_. ''1e+21'') \<rparr>"




section \<open>Properties\<close>

subsection \<open>Evaluation of the control flow\<close>

lemma run_append: "run (xs @ ys) s = run ys (run xs s)"
  by (induction xs arbitrary: s) simp_all

lemmas flow_defs = emit_def throw_def seq_def call_def try_catch_def try_finally_def
  final_def escapes_def

lemmas wallet_defs = wallet_ok_def wallet_absent_def wallet_rejecting_def
  wallet_unknown_chain_def wallet_no_add_def wallet_rpc_down_def wallet_bad_account_def
  user_rejected_def unrecognized_chain_def invalid_address_def rpc_down_def
  raw_account_def checksummed_account_def

subsection \<open>\<open>connect\<close> without a wallet\<close>

text \<open>
  C1 (as amended). When no wallet is injected, \<open>connect()\<close> clears \<open>lastError\<close>,
  raises \<open>connecting\<close>, asks through \<open>confirm\<close> whether to open the download page,
  opens the page of the wallet when the user agrees, and lowers \<open>connecting\<close> again;
  it makes no other call. It returns normally and leaves the Session as it was except
  that \<open>lastError\<close> is absent and \<open>connecting\<close> is false: the missing wallet is
  reported by the dialog, not through \<open>lastError\<close>.
\<close>

theorem connect_no_wallet:
  "\<not> has_ethereum w \<Longrightarrow>
     fst (connect w)
       = [SetError None, SetConnecting True, Confirm ''MetaMask not found. Open download page?'']
         @ (if confirm_go w then [WindowOpen ''https://metamask.io/download/'' ''_blank'']
            else [])
         @ [SetConnecting False, SetConnecting False] \<and>
     final (connect w) s = s\<lparr>error := None, connecting := False\<rparr> \<and>
     escapes (connect w) = None"
  by (simp add: connect_def connect_try_def flow_defs)

theorem connect_no_wallet_witness:
  "\<not> has_ethereum wallet_absent \<and>
   fst (connect wallet_absent)
     = [SetError None, SetConnecting True, Confirm ''MetaMask not found. Open download page?'',
        WindowOpen ''https://metamask.io/download/'' ''_blank'',
        SetConnecting False, SetConnecting False] \<and>
   final (connect wallet_absent) (session0\<lparr>error := Some ''old'', connecting := True\<rparr>)
     = session0 \<and>
   escapes (connect wallet_absent) = None"
proof -
  have h: "\<not> has_ethereum wallet_absent" by (simp add: wallet_defs)
  have g: "confirm_go wallet_absent" by (simp add: wallet_defs)
  from connect_no_wallet [OF h, of "session0\<lparr>error := Some ''old'', connecting := True\<rparr>"] h g
  show ?thesis by (simp add: session0_def)
qed

text \<open>
  The specification asks for a "no wallet" message in \<open>lastError\<close>. Start from the
  Session that \<open>initProvider\<close> leaves on a page without a wallet, which holds such a
  message: after \<open>connect()\<close> the message is gone.
\<close>

theorem connect_no_wallet_counterexample:
  "error (final (initProvider wallet_absent) session0)
     = Some ''No injected wallet found (install MetaMask).'' \<and>
   error (final (connect wallet_absent) (final (initProvider wallet_absent) session0)) = None"
  by (simp add: connect_def connect_try_def initProvider_def flow_defs wallet_defs session0_def)

subsection \<open>The accounts-changed notification with an empty payload\<close>

text \<open>
  C3. Whatever the Session was, after the accounts-changed handler has run on an empty
  list, \<open>address\<close>, \<open>signerHandle\<close> and \<open>balanceEth\<close> are absent (and the handler
  returned normally).
\<close>

theorem accounts_changed_empty:
  "address (final (onAccountsChanged w (Some [])) s) = None \<and>
   signer (final (onAccountsChanged w (Some [])) s) = None \<and>
   balance (final (onAccountsChanged w (Some [])) s) = None \<and>
   escapes (onAccountsChanged w (Some [])) = None"
  by (simp add: onAccountsChanged_def flow_defs)

subsection \<open>\<open>connect\<close> when the authorization request fails\<close>

text \<open>
  C4. With a wallet present, when \<open>eth_requestAccounts\<close> rejects with \<open>e\<close>, \<open>connect()\<close>
  leaves \<open>address\<close> and \<open>signerHandle\<close> as they were and sets \<open>lastError\<close> to
  \<open>e?.message || String(e)\<close>, which is the wallet's message whenever it has one;
  \<open>connecting\<close> ends false and nothing is thrown.
\<close>

theorem connect_request_fails:
  "has_ethereum w \<Longrightarrow> request_accounts w = Inl e \<Longrightarrow>
     address (final (connect w) s) = address s \<and>
     signer (final (connect w) s) = signer s \<and>
     error (final (connect w) s) = Some (err_text e) \<and>
     (\<forall>m. err_message e = Some m \<and> m \<noteq> [] \<longrightarrow> error (final (connect w) s) = Some m) \<and>
     connecting (final (connect w) s) = False \<and>
     escapes (connect w) = None"
  by (simp add: connect_def connect_try_def flow_defs err_text_def)

theorem connect_request_fails_witness:
  "has_ethereum wallet_rejecting \<and> request_accounts wallet_rejecting = Inl user_rejected \<and>
   err_message user_rejected = Some ''User rejected the request.'' \<and>
   address (final (connect wallet_rejecting) session0) = None \<and>
   signer (final (connect wallet_rejecting) session0) = None \<and>
   error (final (connect wallet_rejecting) session0) = Some ''User rejected the request.'' \<and>
   connecting (final (connect wallet_rejecting) session0) = False"
proof -
  have h1: "has_ethereum wallet_rejecting" by (simp add: wallet_defs)
  have h2: "request_accounts wallet_rejecting = Inl user_rejected" by (simp add: wallet_defs)
  have h3: "err_message user_rejected = Some ''User rejected the request.''"
    by (simp add: wallet_defs)
  from connect_request_fails [OF h1 h2, of session0] h1 h2 h3
  show ?thesis by (simp add: session0_def err_text_def)
qed

subsection \<open>\<open>connect\<close> when it succeeds\<close>

text \<open>
  C5. When the wallet answers \<open>eth_requestAccounts\<close> with a non-empty list and the body
  of \<open>connect()\<close> completes without an exception, the resulting \<open>address\<close> is what the
  standalone checksum function \<open>ethers.getAddress\<close> returns on the first raw account.
\<close>

theorem connect_address_checksummed:
  "has_ethereum w \<Longrightarrow> request_accounts w = Inr (Some (a # rest)) \<Longrightarrow>
   escapes (connect_try w) = None \<Longrightarrow>
     \<exists>c. get_address w a = Inr c \<and> address (final (connect w) s) = Some c"
  by (auto simp add: connect_def connect_try_def flow_defs chain_updates_def
        split: sum.splits option.splits list.splits if_splits)

theorem connect_address_checksummed_witness:
  "has_ethereum wallet_ok \<and> request_accounts wallet_ok = Inr (Some [raw_account]) \<and>
   escapes (connect_try wallet_ok) = None \<and>
   get_address wallet_ok raw_account = Inr checksummed_account \<and>
   address (final (connect wallet_ok) session0) = Some checksummed_account"
proof -
  have h1: "has_ethereum wallet_ok" by (simp add: wallet_defs)
  have h2: "request_accounts wallet_ok = Inr (Some (raw_account # []))"
    by (simp add: wallet_defs)
  have h3: "escapes (connect_try wallet_ok) = None"
    by (simp add: connect_try_def flow_defs wallet_defs chain_updates_def)
  have h4: "get_address wallet_ok raw_account = Inr checksummed_account"
    by (simp add: wallet_defs)
  from connect_address_checksummed [OF h1 h2 h3, of session0] h4
  have "address (final (connect wallet_ok) session0) = Some checksummed_account" by auto
  with h1 h2 h3 h4 show ?thesis by simp
qed

subsection \<open>\<open>switchNetwork\<close> and the chain fields\<close>

text \<open>
  C6. \<open>switchNetwork\<close> never changes \<open>chainIdHex\<close> or \<open>chainIdNumeric\<close> and never
  throws. When it fails, \<open>lastError\<close> holds the underlying message: the fixed text when
  no wallet is present; the switch error when the wallet refuses the switch and either
  the code is not 4902 or no \<open>addChainParams\<close> were given; the add-chain error when the
  follow-up request fails.
\<close>

theorem switchNetwork_failure:
  "chainHex (final (switchNetwork w h ps) s) = chainHex s \<and>
   chainId (final (switchNetwork w h ps) s) = chainId s \<and>
   escapes (switchNetwork w h ps) = None \<and>
   (\<not> has_ethereum w \<longrightarrow>
      error (final (switchNetwork w h ps) s) = Some ''No wallet available to switch network.'') \<and>
   (has_ethereum w \<and> switch_chain w h = Inl e \<and> (ps = None \<or> err_code e \<noteq> Some 4902) \<longrightarrow>
      error (final (switchNetwork w h ps) s) = Some (err_text e)) \<and>
   (has_ethereum w \<and> switch_chain w h = Inl e \<and> err_code e = Some 4902 \<and> ps = Some q \<and>
    add_chain w q = Inl e' \<longrightarrow>
      error (final (switchNetwork w h ps) s) = Some (err_text e'))"
  by (auto simp add: switchNetwork_def flow_defs split: sum.splits option.splits)

text \<open>
  The three failures at concrete inputs: no wallet; \<open>switchNetwork("0x5")\<close> on a wallet
  that does not know the chain; \<open>switchNetwork("0x89", params)\<close> where the add-chain
  request is rejected too.
\<close>

theorem switchNetwork_failure_witness:
  "(\<not> has_ethereum wallet_absent \<and>
    error (final (switchNetwork wallet_absent ''0x5'' None) session_on_mainnet)
      = Some ''No wallet available to switch network.'') \<and>
   (has_ethereum wallet_unknown_chain \<and>
    switch_chain wallet_unknown_chain ''0x5'' = Inl unrecognized_chain \<and>
    error (final (switchNetwork wallet_unknown_chain ''0x5'' None) session_on_mainnet)
      = Some ''Unrecognized chain ID.'' \<and>
    chainHex (final (switchNetwork wallet_unknown_chain ''0x5'' None) session_on_mainnet)
      = Some ''0x1'' \<and>
    chainId (final (switchNetwork wallet_unknown_chain ''0x5'' None) session_on_mainnet)
      = Some (BigInt 1)) \<and>
   (has_ethereum wallet_no_add \<and>
    switch_chain wallet_no_add ''0x89'' = Inl unrecognized_chain \<and>
    err_code unrecognized_chain = Some 4902 \<and>
    add_chain wallet_no_add polygon_params = Inl user_rejected \<and>
    error (final (switchNetwork wallet_no_add ''0x89'' (Some polygon_params)) session_on_mainnet)
      = Some ''User rejected the request.'')"
proof -
  have a: "\<not> has_ethereum wallet_absent" by (simp add: wallet_defs)
  have b: "has_ethereum wallet_unknown_chain \<and>
           switch_chain wallet_unknown_chain ''0x5'' = Inl unrecognized_chain"
    by (simp add: wallet_defs)
  have c: "has_ethereum wallet_no_add \<and>
           switch_chain wallet_no_add ''0x89'' = Inl unrecognized_chain \<and>
           err_code unrecognized_chain = Some 4902 \<and>
           add_chain wallet_no_add polygon_params = Inl user_rejected"
    by (simp add: wallet_defs)
  have t: "err_text unrecognized_chain = ''Unrecognized chain ID.'' \<and>
           err_text user_rejected = ''User rejected the request.''"
    by (simp add: err_text_def wallet_defs)
  from a b c t
    switchNetwork_failure [of wallet_absent "''0x5''" None session_on_mainnet]
    switchNetwork_failure [of wallet_unknown_chain "''0x5''" None session_on_mainnet
      unrecognized_chain]
    switchNetwork_failure [of wallet_no_add "''0x89''" "Some polygon_params" session_on_mainnet
      unrecognized_chain polygon_params user_rejected]
  show ?thesis by (simp add: session_on_mainnet_def session0_def)
qed

subsection \<open>\<open>connect\<close> clears the previous error\<close>

text \<open>
  C9. The first call \<open>connect()\<close> makes is \<open>setError(null)\<close>. Hence the Session after
  \<open>connect()\<close> does not depend on the error recorded before it: \<open>lastError\<close> ends
  absent, or holds the error of this very attempt. This holds for every wallet, present
  or not, approving or failing.
\<close>

theorem connect_clears_error:
  "(\<exists>rest. fst (connect w) = SetError None # rest) \<and>
   final (connect w) s = final (connect w) (s\<lparr>error := None\<rparr>) \<and>
   (error (final (connect w) s) = None \<or>
    (\<exists>e. escapes (connect_try w) = Some e \<and> error (final (connect w) s) = Some (err_text e)))"
  by (auto simp add: connect_def connect_try_def flow_defs chain_updates_def run_append
        split: sum.splits option.splits list.splits if_splits)

subsection \<open>The chain-changed notification and the two chain fields\<close>

lemma hex_val_hex_char: "d < 16 \<Longrightarrow> hex_val (hex_char d) = Some d"
proof -
  assume "d < 16"
  then have "d = 0 \<or> d = 1 \<or> d = 2 \<or> d = 3 \<or> d = 4 \<or> d = 5 \<or> d = 6 \<or> d = 7 \<or>
             d = 8 \<or> d = 9 \<or> d = 10 \<or> d = 11 \<or> d = 12 \<or> d = 13 \<or> d = 14 \<or> d = 15"
    by presburger
  then show ?thesis
    by (elim disjE) (simp_all add: hex_char_def hex_val_def)
qed

lemma hex_value_snoc:
  "hex_value (ds @ [c]) = 16 * hex_value ds + (case hex_val c of Some d \<Rightarrow> d | None \<Rightarrow> 0)"
  by (simp add: hex_value_def)

lemma hex_value_digits16: "hex_value (digits16 n) = n"
proof (induction n rule: digits16.induct)
  case (1 n)
  show ?case
  proof (cases "n < 16")
    case True
    then show ?thesis
      using hex_value_snoc [of "[]" "hex_char n"]
      by (simp add: digits16.simps [of n] hex_val_hex_char hex_value_def)
  next
    case False
    with 1 show ?thesis
      by (simp add: digits16.simps [of n] hex_value_snoc hex_val_hex_char)
  qed
qed

lemma digits16_all_hex: "list_all is_hex (digits16 n)"
proof (induction n rule: digits16.induct)
  case (1 n)
  then show ?case
    by (cases "n < 16") (simp_all add: digits16.simps [of n] is_hex_def hex_val_hex_char)
qed

lemma digits16_nonempty: "digits16 n \<noteq> []"
  by (simp add: digits16.simps [of n])

text \<open>Below \<open>2^53\<close> every natural number is a double.\<close>

lemma to_double_small: "m < 2 ^ 53 \<Longrightarrow> to_double m = Some m"
proof -
  assume small: "m < 2 ^ 53"
  have "(2::nat) ^ 53 \<le> 2 ^ 1024" by (rule power_increasing) simp_all
  with small have "m < 2 ^ 1024" by (rule less_le_trans)
  moreover have "double_exp m = 0" using small by (simp add: double_exp.simps [of m])
  ultimately show ?thesis by (simp add: to_double_def)
qed

lemma parseInt16_hex_digits:
  "ds \<noteq> [] \<Longrightarrow> list_all is_hex ds \<Longrightarrow> hex_value ds < 2 ^ 53 \<Longrightarrow>
     parseInt16 (CHR ''0'' # CHR ''x'' # ds) = Fin (of_nat (hex_value ds))"
proof -
  assume ne: "ds \<noteq> []" and hex: "list_all is_hex ds" and small: "hex_value ds < 2 ^ 53"
  have tw: "takeWhile is_hex ds = ds"
    using hex by (simp add: list_all_iff)
  show ?thesis
    using ne
    by (simp add: parseInt16_def js_whitespace_def strip_sign_def strip_0x_def tw
          to_double_small [OF small])
qed

lemma parseInt16_denoted:
  "hex_denotes h = Some v \<Longrightarrow> v < 2 ^ 53 \<Longrightarrow> parseInt16 h = Fin (of_nat v)"
  by (auto simp add: hex_denotes_def parseInt16_hex_digits split: list.splits if_splits)

text \<open>The hexadecimal rendering of a BigInt denotes that BigInt, whatever its size.\<close>

lemma hex_denotes_toString16: "hex_denotes (CHR ''0'' # CHR ''x'' # toString16 n) = Some n"
  by (simp add: hex_denotes_def toString16_def digits16_nonempty digits16_all_hex
        hex_value_digits16)

text \<open>
  C7 (as amended). The chain-changed handler first writes the payload to \<open>chainIdHex\<close>
  and \<open>parseInt(payload, 16)\<close> to \<open>chainIdNumeric\<close>, then runs \<open>initProvider\<close>, and
  does not throw. When it has finished, both fields come from one source: from the
  payload, or, when \<open>initProvider\<close> has read the network, from the chain identifier
  \<open>n\<close> the network reported (\<open>"0x" + n.toString(16)\<close> and \<open>n\<close>), whatever the payload
  was. When the payload is \<open>0x\<close> followed by hexadecimal digits and denotes a number
  below \<open>2^53\<close>, or when \<open>initProvider\<close> has read the network, the two fields denote
  the same chain identifier afterwards.
\<close>

theorem chain_changed_fields:
  "fst (onChainChanged w h)
     = SetChainHex (Some h) # SetChainId (Some (Num (parseInt16 h))) # fst (initProvider w) \<and>
   escapes (onChainChanged w h) = None \<and>
   ((chainHex (final (onChainChanged w h) s) = Some h \<and>
     chainId (final (onChainChanged w h) s) = Some (Num (parseInt16 h))) \<or>
    (\<exists>p n. new_provider w = Inr p \<and> get_network w p = Inr n \<and>
       chainHex (final (onChainChanged w h) s) = Some (''0x'' @ toString16 n) \<and>
       chainId (final (onChainChanged w h) s) = Some (BigInt n))) \<and>
   (hex_denotes h = Some v \<and> v < 2 ^ 53 \<longrightarrow> same_chain (final (onChainChanged w h) s)) \<and>
   (has_ethereum w \<and> new_provider w = Inr p \<and> get_network w p = Inr n \<longrightarrow>
      same_chain (final (onChainChanged w h) s))"
proof -
  have a: "fst (onChainChanged w h)
     = SetChainHex (Some h) # SetChainId (Some (Num (parseInt16 h))) # fst (initProvider w)"
    by (simp add: onChainChanged_def flow_defs)
  have b: "escapes (onChainChanged w h) = None"
    by (simp add: onChainChanged_def initProvider_def flow_defs split: option.splits)
  have c: "(chainHex (final (onChainChanged w h) s) = Some h \<and>
     chainId (final (onChainChanged w h) s) = Some (Num (parseInt16 h))) \<or>
    (\<exists>p n. new_provider w = Inr p \<and> get_network w p = Inr n \<and>
       chainHex (final (onChainChanged w h) s) = Some (''0x'' @ toString16 n) \<and>
       chainId (final (onChainChanged w h) s) = Some (BigInt n))"
    by (auto simp add: onChainChanged_def initProvider_def initProvider_try_def flow_defs
          chain_updates_def split: sum.splits option.splits list.splits if_splits)
  have d: "same_chain (final (onChainChanged w h) s)" if "hex_denotes h = Some v" "v < 2 ^ 53"
    using c
  proof
    assume "chainHex (final (onChainChanged w h) s) = Some h \<and>
            chainId (final (onChainChanged w h) s) = Some (Num (parseInt16 h))"
    then show ?thesis
      using that by (simp add: same_chain_def parseInt16_denoted)
  next
    assume "\<exists>p n. new_provider w = Inr p \<and> get_network w p = Inr n \<and>
       chainHex (final (onChainChanged w h) s) = Some (''0x'' @ toString16 n) \<and>
       chainId (final (onChainChanged w h) s) = Some (BigInt n)"
    then show ?thesis
      by (auto simp add: same_chain_def hex_denotes_toString16)
  qed
  have e: "same_chain (final (onChainChanged w h) s)"
    if "has_ethereum w" "new_provider w = Inr p" "get_network w p = Inr n"
    using that
    by (auto simp add: onChainChanged_def initProvider_def initProvider_try_def flow_defs
          chain_updates_def same_chain_def hex_denotes_toString16
          split: sum.splits option.splits list.splits if_splits)
  from a b c d e show ?thesis by blast
qed

text \<open>
  The payload \<open>"0x5"\<close> on a wallet whose network read fails, and a payload that is
  no chain id on a wallet whose network answers (chain 1).
\<close>

theorem chain_changed_fields_witness:
  "hex_denotes ''0x5'' = Some 5 \<and> (5::nat) < 2 ^ 53 \<and>
   same_chain (final (onChainChanged wallet_rpc_down ''0x5'') session0) \<and>
   has_ethereum wallet_ok \<and> new_provider wallet_ok = Inr 1 \<and>
   get_network wallet_ok 1 = Inr 1 \<and>
   same_chain (final (onChainChanged wallet_ok ''zz'') session0)"
proof -
  have h: "hex_denotes ''0x5'' = Some 5"
    by (simp add: hex_denotes_def is_hex_def hex_val_def hex_value_def)
  have b: "(5::nat) < 2 ^ 53" by simp
  have n: "has_ethereum wallet_ok \<and> new_provider wallet_ok = Inr 1 \<and>
           get_network wallet_ok 1 = Inr 1"
    by (simp add: wallet_defs)
  from chain_changed_fields [of wallet_rpc_down "''0x5''" session0 5]
       chain_changed_fields [of wallet_ok "''zz''" session0 _ 1 1] h b n
  show ?thesis by simp
qed

lemma hex_value_big: "hex_value ''20000000000001'' = 9007199254740993"
  by (simp add: hex_value_def hex_val_def)

lemma double_exp_big: "double_exp 9007199254740993 = 1"
  by (simp add: double_exp.simps [of 9007199254740993] double_exp.simps [of 4503599627370496])

lemma to_double_big: "to_double 9007199254740993 = Some 9007199254740992"
proof -
  have "(9007199254740992::nat) < 2 ^ 53 * 2 ^ 971" by simp
  then have lt: "(9007199254740992::nat) < 2 ^ 1024" by (simp add: power_add [symmetric])
  show ?thesis using lt by (simp add: to_double_def double_exp_big Let_def)
qed

lemma parseInt16_big: "parseInt16 ''0x20000000000001'' = Fin 9007199254740992"
  by (simp add: parseInt16_def js_whitespace_def strip_sign_def strip_0x_def is_hex_def
        hex_val_def hex_value_big to_double_big)

lemma parseInt16_five: "parseInt16 ''0x5'' = Fin 5"
proof -
  have "hex_denotes ''0x5'' = Some 5"
    by (simp add: hex_denotes_def is_hex_def hex_val_def hex_value_def)
  then show ?thesis using parseInt16_denoted [of "''0x5''" 5] by simp
qed

lemma parseInt16_zz: "parseInt16 ''zz'' = NaN"
  by (simp add: parseInt16_def js_whitespace_def strip_sign_def strip_0x_def is_hex_def
        hex_val_def)

text \<open>
  The numeric field is not always the payload parsed in base 16, and the two fields do
  not always denote one identifier: the payload \<open>"0x5"\<close> on a wallet whose network
  reports chain 1 leaves the numeric field 1; with the network read failing, the payload
  \<open>"zz"\<close> leaves \<open>NaN\<close> next to \<open>"zz"\<close>, and the payload \<open>"0x20000000000001"\<close>
  (\<open>2^53 + 1\<close>) leaves the double \<open>2^53\<close> next to it.
\<close>

theorem chain_changed_fields_counterexample:
  "chainId (final (onChainChanged wallet_ok ''0x5'') session0) = Some (BigInt 1) \<and>
   parseInt16 ''0x5'' = Fin 5 \<and>
   chainHex (final (onChainChanged wallet_rpc_down ''zz'') session0) = Some ''zz'' \<and>
   chainId (final (onChainChanged wallet_rpc_down ''zz'') session0) = Some (Num NaN) \<and>
   chainHex (final (onChainChanged wallet_rpc_down ''0x20000000000001'') session0)
     = Some ''0x20000000000001'' \<and>
   chainId (final (onChainChanged wallet_rpc_down ''0x20000000000001'') session0)
     = Some (Num (Fin 9007199254740992)) \<and>
   hex_denotes ''0x20000000000001'' = Some 9007199254740993"
proof -
  have a: "chainId (final (onChainChanged wallet_ok ''0x5'') session0) = Some (BigInt 1)"
    by (simp add: onChainChanged_def initProvider_def initProvider_try_def flow_defs
          chain_updates_def wallet_defs session0_def)
  have b: "chainHex (final (onChainChanged wallet_rpc_down h) session0) = Some h \<and>
           chainId (final (onChainChanged wallet_rpc_down h) session0)
             = Some (Num (parseInt16 h))" for h
    by (simp add: onChainChanged_def initProvider_def initProvider_try_def flow_defs
          wallet_defs session0_def)
  have c: "hex_denotes ''0x20000000000001'' = Some 9007199254740993"
    by (simp add: hex_denotes_def is_hex_def hex_val_def hex_value_big)
  from a b [of "''zz''"] b [of "''0x20000000000001''"] c parseInt16_five parseInt16_zz
    parseInt16_big
  show ?thesis by simp
qed

subsection \<open>Balance Refresh under a race\<close>
















subsection \<open>\<open>formatNumber\<close> of a zero balance\<close>

lemma toFixed_zero: "toFixed rt (Fin 0) 6 = ''0.000000''"
  by (simp add: toFixed_def Let_def dec_digits.simps [of 0] dec_char_def eval_nat_numeral)

lemma Number_zero_text: "Number rest0 ''0.0'' = Fin 0"
  by (simp add: Number_def trim_def js_whitespace_def strip_sign_def decimal_literal_def
        is_digit_def dec_value_def Let_def)

text \<open>
  C10 (as amended). For every string whose numeric value is exactly zero,
  \<open>formatNumber\<close> returns \<open>"0"\<close>: the pattern removes \<open>".000000"\<close> from the rendering
  \<open>"0.000000"\<close> and keeps the digit before the point, so a zero balance is displayed
  as \<open>0 ETH\<close>.
\<close>

theorem formatNumber_zero: "Number rt n = Fin 0 \<Longrightarrow> formatNumber rt n = ''0''"
  by (simp add: formatNumber_def toFixed_zero match_here_def all_zeros_def)

theorem formatNumber_zero_witness:
  "Number rest0 ''0.0'' = Fin 0 \<and> formatNumber rest0 ''0.0'' = ''0''"
  using formatNumber_zero [OF Number_zero_text] Number_zero_text by simp

text \<open>
  The empty string is never the result for a zero. \<open>"0.0"\<close> is what \<open>formatEther\<close>
  renders a zero balance to, and its display is not empty.
\<close>

theorem formatNumber_zero_counterexample:
  "formatNumber rest0 ''0.0'' = ''0'' \<and> formatNumber rest0 ''0.0'' \<noteq> []"
  by (simp add: formatNumber_def Number_zero_text toFixed_zero match_here_def all_zeros_def)

subsection \<open>An exception that leaves the accounts-changed handler\<close>

text \<open>
  C2. Failures are to be caught where they arise and recorded in \<open>lastError\<close>, and no
  handler is to let an exception through. The accounts-changed handler does: it calls
  \<open>ethers.getAddress\<close> outside any \<open>try\<close>. On the payload \<open>["0x123"]\<close>, which
  \<open>getAddress\<close> rejects, the handler throws that error and the Session is as before,
  \<open>lastError\<close> included. \<open>connect\<close> makes the same call inside its \<open>try\<close>: given the
  same account it returns normally and records the message.
\<close>

theorem accounts_changed_escapes:
  "get_address wallet_ok ''0x123'' = Inl invalid_address \<and>
   escapes (onAccountsChanged wallet_ok (Some [''0x123''])) = Some invalid_address \<and>
   final (onAccountsChanged wallet_ok (Some [''0x123''])) session0 = session0 \<and>
   request_accounts wallet_bad_account = Inr (Some [''0x123'']) \<and>
   escapes (connect wallet_bad_account) = None \<and>
   error (final (connect wallet_bad_account) session0) = Some ''invalid address''"
  by (simp add: onAccountsChanged_def connect_def connect_try_def flow_defs wallet_defs
        session0_def err_text_def)

end
